theory Spec2Isabelle
  imports Complex_Main
begin

section \<open>JavaScript numbers\<close>

text \<open>
  The dashboard script \<^verbatim>\<open>frontend/chart.js\<close> computes with JavaScript numbers. They are
  modelled as exact reals extended by the two infinities and NaN, with the IEEE rules for
  the special values. Rounding error, overflow of finite values and the sign of zero are
  not modelled: a finite result is the exact real result.
\<close>

datatype jsnum = Num real | PosInf | NegInf | NaN

fun js_add :: "jsnum \<Rightarrow> jsnum \<Rightarrow> jsnum" where
  "js_add NaN b = NaN"
| "js_add a NaN = NaN"
| "js_add PosInf NegInf = NaN"
| "js_add NegInf PosInf = NaN"
| "js_add PosInf b = PosInf"
| "js_add a PosInf = PosInf"
| "js_add NegInf b = NegInf"
| "js_add a NegInf = NegInf"
| "js_add (Num x) (Num y) = Num (x + y)"

fun js_neg :: "jsnum \<Rightarrow> jsnum" where
  "js_neg NaN = NaN"
| "js_neg PosInf = NegInf"
| "js_neg NegInf = PosInf"
| "js_neg (Num x) = Num (- x)"

definition js_sub :: "jsnum \<Rightarrow> jsnum \<Rightarrow> jsnum" where
  "js_sub a b = js_add a (js_neg b)"

text \<open>The sign of a number other than NaN: \<open>-1\<close>, \<open>0\<close> or \<open>1\<close>.\<close>

fun js_sign :: "jsnum \<Rightarrow> int" where
  "js_sign (Num x) = (if x < 0 then - 1 else if x = 0 then 0 else 1)"
| "js_sign PosInf = 1"
| "js_sign NegInf = - 1"
| "js_sign NaN = 0"

fun js_mul :: "jsnum \<Rightarrow> jsnum \<Rightarrow> jsnum" where
  "js_mul NaN b = NaN"
| "js_mul a NaN = NaN"
| "js_mul (Num x) (Num y) = Num (x * y)"
| "js_mul a b =
     (if js_sign a * js_sign b = 0 then NaN
      else if js_sign a * js_sign b > 0 then PosInf else NegInf)"

fun js_div :: "jsnum \<Rightarrow> jsnum \<Rightarrow> jsnum" where
  "js_div NaN b = NaN"
| "js_div a NaN = NaN"
| "js_div (Num x) (Num y) =
     (if y = 0 then (if x = 0 then NaN else if x > 0 then PosInf else NegInf)
      else Num (x / y))"
| "js_div (Num x) b = Num 0"
| "js_div a (Num y) =
     (if (js_sign a > 0) = (y \<ge> 0) then PosInf else NegInf)"
| "js_div a b = NaN"

fun js_ge :: "jsnum \<Rightarrow> jsnum \<Rightarrow> bool" where
  "js_ge NaN b = False"
| "js_ge a NaN = False"
| "js_ge PosInf b = True"
| "js_ge a NegInf = True"
| "js_ge (Num x) (Num y) = (x \<ge> y)"
| "js_ge a b = False"

section \<open>Arrays\<close>

text \<open>
  \<^verbatim>\<open>Array.prototype.slice(start, end)\<close>: a negative argument counts from the end of
  the array, both bounds are clamped to \<open>0 .. length\<close>, and the result is empty when the
  clamped end is not after the clamped start.
\<close>

definition slice_index :: "nat \<Rightarrow> int \<Rightarrow> nat" where
  "slice_index len rel = (if rel < 0 then nat (max (int len + rel) 0) else min (nat rel) len)"

definition slice :: "'a list \<Rightarrow> int \<Rightarrow> int \<Rightarrow> 'a list" where
  "slice xs start end =
     (let k = slice_index (length xs) start;
          final = slice_index (length xs) end
      in take (final - k) (drop k xs))"

text \<open>\<^verbatim>\<open>slice(start)\<close> with the end left out runs to the end of the array.\<close>

definition slice_from :: "'a list \<Rightarrow> int \<Rightarrow> 'a list" where
  "slice_from xs start = drop (slice_index (length xs) start) xs"

section \<open>calculateSMA\<close>

text \<open>
  \<^verbatim>\<open>
  function calculateSMA(data, period) {
      const sma = [];
      for (let i = 0; i < data.length; i++) {
          if (i < period - 1) {
              sma.push(null);
          } else {
              const sum = data.slice(i - period + 1, i + 1).reduce((a, b) => a + b, 0);
              sma.push(sum / period);
          }
      }
      return sma;
  }
  \<close>
  An entry of the result is \<open>None\<close> for \<^verbatim>\<open>null\<close>. The loop is the recursion \<open>sma_loop\<close>
  on the index \<open>i\<close> and the array \<open>sma\<close> built so far.
\<close>

definition sma_entry :: "jsnum list \<Rightarrow> int \<Rightarrow> nat \<Rightarrow> jsnum option" where
  "sma_entry data period i =
     (if int i < period - 1 then None
      else Some (js_div (foldl js_add (Num 0) (slice data (int i - period + 1) (int i + 1)))
                        (Num (of_int period))))"

function sma_loop :: "jsnum list \<Rightarrow> int \<Rightarrow> nat \<Rightarrow> jsnum option list \<Rightarrow> jsnum option list" where
  "sma_loop data period i sma =
     (if i < length data then sma_loop data period (Suc i) (sma @ [sma_entry data period i])
      else sma)"
  by pat_completeness auto
termination
  by (relation "measure (\<lambda>(data, period, i, sma). length data - i)") auto

declare sma_loop.simps [simp del]

definition calculateSMA :: "jsnum list \<Rightarrow> int \<Rightarrow> jsnum option list" where
  "calculateSMA data period = sma_loop data period 0 []"

text \<open>
  The arithmetic mean as the specification words it: the sum of the values divided by
  their number.
\<close>

definition js_sum :: "jsnum list \<Rightarrow> jsnum" where
  "js_sum xs = foldr js_add xs (Num 0)"

definition arithmetic_mean :: "jsnum list \<Rightarrow> jsnum" where
  "arithmetic_mean xs = js_div (js_sum xs) (Num (real (length xs)))"

text \<open>The window \<open>values[lo..hi]\<close>, both ends included.\<close>

definition window :: "'a list \<Rightarrow> nat \<Rightarrow> nat \<Rightarrow> 'a list" where
  "window xs lo hi = map (\<lambda>k. xs ! k) [lo ..< Suc hi]"

section \<open>Strings of the runtime\<close>

text \<open>
  A \<open>string\<close> is a list of code units below 256. \<open>show_nat\<close> is the decimal numeral of a
  natural number, as the runtime prints an integer.
\<close>

definition digit_char :: "nat \<Rightarrow> char" where
  "digit_char d = ''0123456789'' ! d"

function show_nat :: "nat \<Rightarrow> string" where
  "show_nat n = (if n < 10 then [digit_char n] else show_nat (n div 10) @ [digit_char (n mod 10)])"
  by pat_completeness auto
termination
  by (relation "measure (\<lambda>n. n)") auto

declare show_nat.simps [simp del]

definition show_int :: "int \<Rightarrow> string" where
  "show_int k = (if k < 0 then ''-'' @ show_nat (nat (- k)) else show_nat (nat k))"

text \<open>
  \<^verbatim>\<open>Number.prototype.toFixed(f)\<close>. For a finite \<open>x\<close> the runtime takes the integer \<open>n\<close>
  for which \<open>n / 10^f\<close> is nearest to \<open>|x|\<close>, the larger one of two, prints its digits
  with a point before the last \<open>f\<close> of them, and puts a minus sign in front when \<open>x < 0\<close>.
  NaN and the infinities print by name. From \<open>10^21\<close> on the runtime prints the
  exponential form instead: that range is not modelled, and the statements about the
  digits below are for \<open>|x| < 10^21\<close>.
\<close>

definition fixed_int :: "nat \<Rightarrow> real \<Rightarrow> nat" where
  "fixed_int f x = nat \<lfloor>\<bar>x\<bar> * 10 ^ f + 1 / 2\<rfloor>"

definition fixed_digits :: "nat \<Rightarrow> nat \<Rightarrow> string" where
  "fixed_digits f n =
     (let m = show_nat n;
          m = replicate (Suc f - length m) (CHR ''0'') @ m
      in if f = 0 then m
         else take (length m - f) m @ ''.'' @ drop (length m - f) m)"

fun toFixed :: "jsnum \<Rightarrow> nat \<Rightarrow> string" where
  "toFixed NaN f = ''NaN''"
| "toFixed PosInf f = ''Infinity''"
| "toFixed NegInf f = ''-Infinity''"
| "toFixed (Num x) f = (if x < 0 then ''-'' else '''') @ fixed_digits f (fixed_int f x)"

text \<open>
  \<^verbatim>\<open>parseFloat(x.toFixed(2))\<close> reads the printed digits back: the result is the number
  that \<open>toFixed\<close> printed.
\<close>

definition fixed_value :: "nat \<Rightarrow> real \<Rightarrow> real" where
  "fixed_value f x = (if x < 0 then - 1 else 1) * real (fixed_int f x) / 10 ^ f"

text \<open>\<^verbatim>\<open>Math.round\<close> rounds to the nearest integer, a half upwards.\<close>

definition Math_round :: "real \<Rightarrow> real" where
  "Math_round x = of_int \<lfloor>x + 1 / 2\<rfloor>"

text \<open>
  \<^verbatim>\<open>parseInt(s)\<close> with no radix: leading white space is skipped, a sign is read, a prefix
  \<^verbatim>\<open>0x\<close> selects radix 16, and the longest run of digits is the value; with no digit the
  result is NaN, here \<open>None\<close>.
\<close>

definition is_white_space :: "char \<Rightarrow> bool" where
  "is_white_space c = (c \<in> set [CHR 0x09, CHR 0x0A, CHR 0x0B, CHR 0x0C, CHR 0x0D, CHR 0x20, CHR 0xA0])"

definition digit_value :: "char \<Rightarrow> nat option" where
  "digit_value c =
     (let n = (of_char c :: nat) in
      if 48 \<le> n \<and> n \<le> 57 then Some (n - 48)
      else if 97 \<le> n \<and> n \<le> 102 then Some (n - 87)
      else if 65 \<le> n \<and> n \<le> 70 then Some (n - 55)
      else None)"

definition is_radix_digit :: "nat \<Rightarrow> char \<Rightarrow> bool" where
  "is_radix_digit R c = (case digit_value c of None \<Rightarrow> False | Some d \<Rightarrow> d < R)"

definition radix_value :: "nat \<Rightarrow> string \<Rightarrow> nat" where
  "radix_value R Z =
     foldl (\<lambda>a c. a * R + (case digit_value c of None \<Rightarrow> 0 | Some d \<Rightarrow> d)) 0 Z"

definition parseInt :: "string \<Rightarrow> int option" where
  "parseInt inputString =
     (let S = dropWhile is_white_space inputString;
          sign = (if S \<noteq> [] \<and> hd S = CHR ''-'' then - 1 else 1 :: int);
          S = (if S \<noteq> [] \<and> (hd S = CHR ''+'' \<or> hd S = CHR ''-'') then tl S else S);
          hex = (take 2 S = ''0x'' \<or> take 2 S = ''0X'');
          R = (if hex then 16 else 10 :: nat);
          S = (if hex then drop 2 S else S);
          Z = takeWhile (is_radix_digit R) S
      in if Z = [] then None else Some (sign * int (radix_value R Z)))"

section \<open>Dates of the runtime\<close>

text \<open>
  A \<^verbatim>\<open>Date\<close> is its time value, the milliseconds since 1970-01-01T00:00Z. The calendar
  functions are those of the language standard: \<open>Day\<close>, \<open>TimeWithinDay\<close>,
  \<open>YearFromTime\<close>, \<open>MonthFromTime\<close> (0 to 11), \<open>DateFromTime\<close> (1 to 31), \<open>MakeDay\<close> and
  \<open>MakeDate\<close>, computed in the proleptic Gregorian calendar. The range limit of time
  values (\<open>TimeClip\<close>) is not modelled.
\<close>

definition msPerDay :: int where
  "msPerDay = 86400000"

definition Day :: "int \<Rightarrow> int" where
  "Day t = t div msPerDay"

definition TimeWithinDay :: "int \<Rightarrow> int" where
  "TimeWithinDay t = t mod msPerDay"

text \<open>
  Year, month (1 to 12) and day of the month of a day number counted from 1970-01-01. The
  count is shifted to start at 0000-03-01 and split into eras of 400 years. Within an era
  the day is split into centuries, cycles of 4 years and years; the year of this count
  starts in March, so that the leap day is its last day.
\<close>

text \<open>The year within the era (0 to 399) and the day within that year (0 to 365).\<close>

definition year_of_era :: "int \<Rightarrow> int \<times> int" where
  "year_of_era doe =
     (let c = min (doe div 36524) 3;
          r1 = doe - c * 36524;
          q = r1 div 1461;
          r2 = r1 - q * 1461;
          yy = min (r2 div 365) 3
      in (c * 100 + q * 4 + yy, r2 - yy * 365))"

text \<open>The month (1 to 12) and the day of the month of a day within the March-based year.\<close>

definition month_of_year_day :: "int \<Rightarrow> int \<times> int" where
  "month_of_year_day doy =
     (let mp = (5 * doy + 2) div 153
      in (if mp < 10 then mp + 3 else mp - 9, doy - (153 * mp + 2) div 5 + 1))"

definition civil_from_days :: "int \<Rightarrow> int \<times> int \<times> int" where
  "civil_from_days z0 =
     (let z = z0 + 719468;
          (yoe, doy) = year_of_era (z mod 146097);
          (m, d) = month_of_year_day doy
      in (yoe + (z div 146097) * 400 + (if m \<le> 2 then 1 else 0), m, d))"

text \<open>The day number of a year, a month (1 to 12) and a day of the month.\<close>

definition days_from_civil :: "int \<Rightarrow> int \<Rightarrow> int \<Rightarrow> int" where
  "days_from_civil y0 m d =
     (let y = (if m \<le> 2 then y0 - 1 else y0);
          era = y div 400;
          yoe = y mod 400;
          doy = (153 * (if m > 2 then m - 3 else m + 9) + 2) div 5 + d - 1;
          doe = yoe * 365 + yoe div 4 - yoe div 100 + doy
      in era * 146097 + doe - 719468)"

definition YearFromTime :: "int \<Rightarrow> int" where
  "YearFromTime t = fst (civil_from_days (Day t))"

definition MonthFromTime :: "int \<Rightarrow> int" where
  "MonthFromTime t = fst (snd (civil_from_days (Day t))) - 1"

definition DateFromTime :: "int \<Rightarrow> int" where
  "DateFromTime t = snd (snd (civil_from_days (Day t)))"

definition MakeDay :: "int \<Rightarrow> int \<Rightarrow> int \<Rightarrow> int" where
  "MakeDay year month dt =
     days_from_civil (year + month div 12) (month mod 12 + 1) 1 + dt - 1"

definition MakeDate :: "int \<Rightarrow> int \<Rightarrow> int" where
  "MakeDate day time = day * msPerDay + time"

text \<open>
  What the script takes from its surroundings: the clock, the time zone of the browser
  (\<open>LocalTZA t True\<close> is the offset of local time from UTC at the UTC time \<open>t\<close>,
  \<open>LocalTZA t False\<close> the offset at the local time \<open>t\<close>), the values that successive
  calls of \<^verbatim>\<open>Math.random()\<close> return, and the short month-and-day text that
  \<^verbatim>\<open>toLocaleDateString\<close> gives for a date string.
\<close>

record runtime =
  now :: int
  LocalTZA :: "int \<Rightarrow> bool \<Rightarrow> int"
  random :: "nat \<Rightarrow> real"
  toLocaleShort :: "string \<Rightarrow> string"

definition LocalTime :: "runtime \<Rightarrow> int \<Rightarrow> int" where
  "LocalTime rt t = t + LocalTZA rt t True"

definition UTC :: "runtime \<Rightarrow> int \<Rightarrow> int" where
  "UTC rt t = t - LocalTZA rt t False"

text \<open>\<^verbatim>\<open>date.getDate()\<close>: the day of the month in local time.\<close>

definition getDate :: "runtime \<Rightarrow> int \<Rightarrow> int" where
  "getDate rt t = DateFromTime (LocalTime rt t)"

text \<open>
  \<^verbatim>\<open>date.setDate(dt)\<close>: the local year, month and time of day are kept, the day of the
  month becomes \<open>dt\<close> (a value below 1 reaches into earlier months), and the result is
  turned back into UTC.
\<close>

definition setDate :: "runtime \<Rightarrow> int \<Rightarrow> int \<Rightarrow> int" where
  "setDate rt t dt =
     (let lt = LocalTime rt t
      in UTC rt (MakeDate (MakeDay (YearFromTime lt) (MonthFromTime lt) dt) (TimeWithinDay lt)))"

text \<open>
  \<^verbatim>\<open>date.toISOString().split('T')[0]\<close>: the UTC calendar date as \<^verbatim>\<open>YYYY-MM-DD\<close>; a year
  outside 0 to 9999 is printed with a sign and six digits.
\<close>

definition pad_left :: "nat \<Rightarrow> string \<Rightarrow> string" where
  "pad_left w s = replicate (w - length s) (CHR ''0'') @ s"

definition iso_year :: "int \<Rightarrow> string" where
  "iso_year y =
     (if 0 \<le> y \<and> y \<le> 9999 then pad_left 4 (show_nat (nat y))
      else (if y < 0 then ''-'' else ''+'') @ pad_left 6 (show_nat (nat \<bar>y\<bar>)))"

definition toISODate :: "int \<Rightarrow> string" where
  "toISODate t =
     iso_year (YearFromTime t) @ ''-'' @ pad_left 2 (show_nat (nat (MonthFromTime t + 1)))
       @ ''-'' @ pad_left 2 (show_nat (nat (DateFromTime t)))"

section \<open>The state of the page\<close>

text \<open>
  One observation, as the backend serves it and as the demo generator builds it:
  \<^verbatim>\<open>{date, active_listings, avg_price_per_sqft, data_source}\<close>.
\<close>

record point =
  date :: string
  active_listings :: jsnum
  avg_price_per_sqft :: jsnum
  data_source :: string

text \<open>
  A series of the chart. Of the presentation options only the colour and the axis are
  kept; \<open>data\<close> holds \<open>None\<close> for \<^verbatim>\<open>null\<close>.
\<close>

record dataset =
  label :: string
  data :: "jsnum option list"
  borderColor :: string
  yAxisID :: string

record chart =
  labels :: "string list"
  datasets :: "dataset list"

text \<open>
  The text of a statistics card: a string, or a number that the document prints.
\<close>

datatype content = Text string | Number jsnum

text \<open>
  The two globals of the script (\<^verbatim>\<open>null\<close> is \<open>None\<close>), the values of the two selectors,
  and the text and colour of the statistics cards \<^verbatim>\<open>currentListings\<close>, \<^verbatim>\<open>currentPrice\<close>,
  \<^verbatim>\<open>priceChange\<close> and \<^verbatim>\<open>lastUpdate\<close>.
\<close>

record state =
  housingChart :: "chart option"
  cachedData :: "point list option"
  timeframeSelect :: string
  smaSelect :: string
  currentListingsText :: content
  currentPriceText :: content
  priceChangeText :: content
  priceChangeColor :: string
  lastUpdateText :: content

datatype error = TypeError | FailedToFetch | NetworkError | SyntaxError

text \<open>
  A call returns the state it leaves (\<open>Inr\<close>), or throws (\<open>Inl\<close>) with the state as it
  is at the throw.
\<close>

type_synonym outcome = "(error \<times> state) + state"

section \<open>initializeChart\<close>

definition initial_chart :: chart where
  "initial_chart =
     \<lparr>labels = [],
      datasets =
        [\<lparr>label = ''Active Listings'', data = [], borderColor = ''#8ab4f8'',
          yAxisID = ''y-listings''\<rparr>,
         \<lparr>label = ''Avg Price/SqFt'', data = [], borderColor = ''#81c995'',
          yAxisID = ''y-price''\<rparr>]\<rparr>"

definition initializeChart :: "state \<Rightarrow> state" where
  "initializeChart st = st\<lparr>housingChart := Some initial_chart\<rparr>"

section \<open>updateChart\<close>

definition formatDate :: "runtime \<Rightarrow> string \<Rightarrow> string" where
  "formatDate rt dateString = toLocaleShort rt dateString"

text \<open>
  \<^verbatim>\<open>
  let filteredData = cachedData;
  if (timeframe !== 'all') {
      const days = parseInt(timeframe);
      filteredData = cachedData.slice(-days);
  }
  \<close>
  The negation of NaN is NaN, which \<^verbatim>\<open>slice\<close> reads as 0.
\<close>

definition filteredData :: "point list \<Rightarrow> string \<Rightarrow> point list" where
  "filteredData cached timeframe =
     (if timeframe \<noteq> ''all''
      then slice_from cached (case parseInt timeframe of None \<Rightarrow> 0 | Some days \<Rightarrow> - days)
      else cached)"

text \<open>\<^verbatim>\<open>smaPeriod > 0 && filteredData.length >= smaPeriod\<close>, false for NaN.\<close>

definition sma_applies :: "int option \<Rightarrow> nat \<Rightarrow> bool" where
  "sma_applies smaPeriod len =
     (case smaPeriod of None \<Rightarrow> False | Some p \<Rightarrow> p > 0 \<and> int len \<ge> p)"

definition sma_label :: "int \<Rightarrow> string" where
  "sma_label p = show_int p @ ''-Day SMA''"

definition sma_dataset :: "int \<Rightarrow> jsnum option list \<Rightarrow> dataset" where
  "sma_dataset p priceSMA =
     \<lparr>label = sma_label p, data = priceSMA, borderColor = ''#fdd663'', yAxisID = ''y-price''\<rparr>"

text \<open>
  The last part of \<^verbatim>\<open>updateChart\<close>, on the series of the chart:
  \<^verbatim>\<open>
  if (smaPeriod > 0 && filteredData.length >= smaPeriod) {
      const priceSMA = calculateSMA(priceData, smaPeriod);
      if (housingChart.data.datasets.length === 2) {
          housingChart.data.datasets.push({label: `${smaPeriod}-Day SMA`, data: priceSMA, ...});
      } else {
          housingChart.data.datasets[2].data = priceSMA;
          housingChart.data.datasets[2].label = `${smaPeriod}-Day SMA`;
      }
  } else {
      if (housingChart.data.datasets.length > 2) {
          housingChart.data.datasets.pop();
      }
  }
  \<close>
  It runs with at least two series, so in the inner \<^verbatim>\<open>else\<close> the index 2 is in range.
\<close>

definition apply_sma ::
  "int option \<Rightarrow> point list \<Rightarrow> jsnum list \<Rightarrow> dataset list \<Rightarrow> dataset list" where
  "apply_sma smaPeriod filtered priceData ds =
     (case smaPeriod of
        None \<Rightarrow> (if length ds > 2 then butlast ds else ds)
      | Some p \<Rightarrow>
          if p > 0 \<and> int (length filtered) \<ge> p then
            (let priceSMA = calculateSMA priceData p
             in if length ds = 2 then ds @ [sma_dataset p priceSMA]
                else ds[2 := (ds ! 2)\<lparr>data := priceSMA, label := sma_label p\<rparr>])
          else (if length ds > 2 then butlast ds else ds))"

text \<open>
  \<^verbatim>\<open>
  function updateChart() {
      if (!cachedData || cachedData.length === 0) return;
      const timeframe = document.getElementById('timeframeSelect').value;
      const smaPeriod = parseInt(document.getElementById('smaSelect').value);
      ... filteredData ...
      const labels = filteredData.map(d => formatDate(d.date));
      const listingsData = filteredData.map(d => d.active_listings);
      const priceData = filteredData.map(d => d.avg_price_per_sqft);
      housingChart.data.labels = labels;
      housingChart.data.datasets[0].data = listingsData;
      housingChart.data.datasets[1].data = priceData;
      ... SMA ...
      housingChart.update();
  }
  \<close>
  The assignment to \<^verbatim>\<open>housingChart.data.labels\<close> throws a TypeError while the chart is
  \<^verbatim>\<open>null\<close>, and the assignments to the series 0 and 1 throw when the chart has no such
  series, after the earlier assignments are done. \<^verbatim>\<open>housingChart.update()\<close> redraws and
  leaves the state as it is.
\<close>

definition updateChart :: "runtime \<Rightarrow> state \<Rightarrow> outcome" where
  "updateChart rt st =
     (case cachedData st of
        None \<Rightarrow> Inr st
      | Some cached \<Rightarrow>
          if cached = [] then Inr st
          else
            let timeframe = timeframeSelect st;
                smaPeriod = parseInt (smaSelect st);
                filtered = filteredData cached timeframe;
                new_labels = map (\<lambda>d. formatDate rt (date d)) filtered;
                listingsData = map active_listings filtered;
                priceData = map avg_price_per_sqft filtered
            in case housingChart st of
                 None \<Rightarrow> Inl (TypeError, st)
               | Some ch \<Rightarrow>
                   let ch = ch\<lparr>labels := new_labels\<rparr>
                   in if length (datasets ch) = 0
                      then Inl (TypeError, st\<lparr>housingChart := Some ch\<rparr>)
                      else
                        let ch = ch\<lparr>datasets := (datasets ch)
                                   [0 := (datasets ch ! 0)\<lparr>data := map Some listingsData\<rparr>]\<rparr>
                        in if length (datasets ch) = 1
                           then Inl (TypeError, st\<lparr>housingChart := Some ch\<rparr>)
                           else
                             let ch = ch\<lparr>datasets := (datasets ch)
                                        [1 := (datasets ch ! 1)\<lparr>data := map Some priceData\<rparr>]\<rparr>;
                                 ch = ch\<lparr>datasets := apply_sma smaPeriod filtered priceData (datasets ch)\<rparr>
                             in Inr (st\<lparr>housingChart := Some ch\<rparr>))"

section \<open>updateStats\<close>

text \<open>
  \<^verbatim>\<open>
  function updateStats() {
      if (!cachedData || cachedData.length === 0) return;
      const latest = cachedData[cachedData.length - 1];
      const thirtyDaysAgo = cachedData[Math.max(0, cachedData.length - 31)];
      document.getElementById('currentListings').textContent = latest.active_listings;
      document.getElementById('currentPrice').textContent = '$' + latest.avg_price_per_sqft.toFixed(2);
      const priceChange = ((latest.avg_price_per_sqft - thirtyDaysAgo.avg_price_per_sqft)
                           / thirtyDaysAgo.avg_price_per_sqft) * 100;
      const changeElement = document.getElementById('priceChange');
      changeElement.textContent = (priceChange >= 0 ? '+' : '') + priceChange.toFixed(1) + '%';
      changeElement.style.color = priceChange >= 0 ? '#81c995' : '#f28b82';
      document.getElementById('lastUpdate').textContent = formatDate(latest.date);
  }
  \<close>
  Both indices are in range on a non-empty array.
\<close>

definition latest_point :: "point list \<Rightarrow> point" where
  "latest_point cached = cached ! (length cached - 1)"

definition thirtyDaysAgo :: "point list \<Rightarrow> point" where
  "thirtyDaysAgo cached = cached ! nat (max 0 (int (length cached) - 31))"

definition price_change :: "point list \<Rightarrow> jsnum" where
  "price_change cached =
     js_mul
       (js_div
          (js_sub (avg_price_per_sqft (latest_point cached))
                  (avg_price_per_sqft (thirtyDaysAgo cached)))
          (avg_price_per_sqft (thirtyDaysAgo cached)))
       (Num 100)"

definition price_change_text :: "jsnum \<Rightarrow> string" where
  "price_change_text priceChange =
     (if js_ge priceChange (Num 0) then ''+'' else '''') @ toFixed priceChange 1 @ ''%''"

definition updateStats :: "runtime \<Rightarrow> state \<Rightarrow> state" where
  "updateStats rt st =
     (case cachedData st of
        None \<Rightarrow> st
      | Some cached \<Rightarrow>
          if cached = [] then st
          else
            let latest = latest_point cached;
                priceChange = price_change cached
            in st\<lparr>currentListingsText := Number (active_listings latest),
                  currentPriceText := Text (''$'' @ toFixed (avg_price_per_sqft latest) 2),
                  priceChangeText := Text (price_change_text priceChange),
                  priceChangeColor :=
                    (if js_ge priceChange (Num 0) then ''#81c995'' else ''#f28b82''),
                  lastUpdateText := Text (formatDate rt (date latest))\<rparr>)"

section \<open>useDemoData\<close>

text \<open>
  \<^verbatim>\<open>
  cachedData = [];
  const now = new Date();
  for (let i = 90; i >= 0; i--) {
      const date = new Date(now);
      date.setDate(date.getDate() - i);
      const baseListings = 45 + Math.sin(i / 15) * 5 + (Math.random() - 0.5) * 3;
      const basePrice = 450 + (90 - i) * 0.5 + Math.sin(i / 10) * 10 + (Math.random() - 0.5) * 5;
      cachedData.push({
          date: date.toISOString().split('T')[0],
          active_listings: Math.round(baseListings),
          avg_price_per_sqft: parseFloat(basePrice.toFixed(2)),
          data_source: i > 30 ? 'historical' : 'scraped'
      });
  }
  updateChart();
  updateStats();
  \<close>
  Every operand of the two sums is finite, so they are computed in the reals. A turn of the
  loop draws two random values; \<open>k\<close> counts the draws made so far.
\<close>

definition demo_point :: "runtime \<Rightarrow> int \<Rightarrow> real \<Rightarrow> real \<Rightarrow> point" where
  "demo_point rt i r1 r2 =
     (let d = setDate rt (now rt) (getDate rt (now rt) - i);
          baseListings = 45 + sin (of_int i / 15) * 5 + (r1 - 0.5) * 3;
          basePrice = 450 + (90 - of_int i) * 0.5 + sin (of_int i / 10) * 10 + (r2 - 0.5) * 5
      in \<lparr>date = toISODate d,
          active_listings = Num (Math_round baseListings),
          avg_price_per_sqft = Num (fixed_value 2 basePrice),
          data_source = (if i > 30 then ''historical'' else ''scraped'')\<rparr>)"

function demo_loop :: "runtime \<Rightarrow> int \<Rightarrow> nat \<Rightarrow> point list \<Rightarrow> point list" where
  "demo_loop rt i k cached =
     (if i \<ge> 0
      then demo_loop rt (i - 1) (k + 2)
             (cached @ [demo_point rt i (random rt k) (random rt (k + 1))])
      else cached)"
  by pat_completeness auto
termination
  by (relation "measure (\<lambda>(rt, i, k, cached). nat (i + 1))") auto

declare demo_loop.simps [simp del]

definition demo_data :: "runtime \<Rightarrow> point list" where
  "demo_data rt = demo_loop rt 90 0 []"

definition useDemoData :: "runtime \<Rightarrow> state \<Rightarrow> outcome" where
  "useDemoData rt st =
     (case updateChart rt (st\<lparr>cachedData := Some (demo_data rt)\<rparr>) of
        Inl thrown \<Rightarrow> Inl thrown
      | Inr st \<Rightarrow> Inr (updateStats rt st))"

section \<open>loadData\<close>

text \<open>
  What \<^verbatim>\<open>fetch('/api/data')\<close> and \<^verbatim>\<open>response.json()\<close> come to: the request is rejected,
  or a response arrives with its \<^verbatim>\<open>ok\<close> flag and a body, which is not JSON or is an array
  of observations. A JSON body of another shape is outside this model.
\<close>

datatype body = NotJson | Payload "point list"

datatype fetched = Rejected | Response bool body

text \<open>
  \<^verbatim>\<open>
  async function loadData() {
      try {
          const response = await fetch('/api/data');
          if (!response.ok) {
              throw new Error('Failed to fetch data');
          }
          cachedData = await response.json();
          updateChart();
          updateStats();
      } catch (error) {
          console.error('Error loading data:', error);
          useDemoData();
      }
  }
  \<close>
  \<open>try_load\<close> is the \<^verbatim>\<open>try\<close> block; whatever it throws, the handler calls
  \<^verbatim>\<open>useDemoData\<close> on the state at the throw, and what that call throws leaves
  \<^verbatim>\<open>loadData\<close>.
\<close>

definition try_load :: "runtime \<Rightarrow> fetched \<Rightarrow> state \<Rightarrow> outcome" where
  "try_load rt f st =
     (case f of
        Rejected \<Rightarrow> Inl (NetworkError, st)
      | Response ok b \<Rightarrow>
          if \<not> ok then Inl (FailedToFetch, st)
          else (case b of
                  NotJson \<Rightarrow> Inl (SyntaxError, st)
                | Payload json \<Rightarrow>
                    (case updateChart rt (st\<lparr>cachedData := Some json\<rparr>) of
                       Inl thrown \<Rightarrow> Inl thrown
                     | Inr st \<Rightarrow> Inr (updateStats rt st))))"

definition loadData :: "runtime \<Rightarrow> fetched \<Rightarrow> state \<Rightarrow> outcome" where
  "loadData rt f st =
     (case try_load rt f st of
        Inl (err, st) \<Rightarrow> useDemoData rt st
      | Inr st \<Rightarrow> Inr st)"

text \<open>
  The states of a loaded page: \<^verbatim>\<open>initializeChart\<close> has run, and since then the user has
  changed the selectors, which calls \<^verbatim>\<open>updateChart\<close>, or a load has run.
\<close>

inductive reachable :: "state \<Rightarrow> bool" where
  initial: "reachable (initializeChart st)"
| change: "reachable st \<Longrightarrow>
     updateChart rt (st\<lparr>timeframeSelect := t, smaSelect := s\<rparr>) = Inr st' \<Longrightarrow> reachable st'"
| load: "reachable st \<Longrightarrow> loadData rt f st = Inr st' \<Longrightarrow> reachable st'"

section \<open>Notions of the specification\<close>

text \<open>The last \<open>k\<close> points of a dataset, in their order.\<close>

definition last_points :: "nat \<Rightarrow> 'a list \<Rightarrow> 'a list" where
  "last_points k xs = drop (length xs - k) xs"

text \<open>The state a call leaves, whether it returns or throws.\<close>

fun state_after :: "outcome \<Rightarrow> state" where
  "state_after (Inl (err, st)) = st"
| "state_after (Inr st) = st"

text \<open>
  The series of the chart beyond the two base series; the chart holds an overlay when
  there is one.
\<close>

definition overlay :: "chart \<Rightarrow> dataset list" where
  "overlay ch = drop 2 (datasets ch)"

text \<open>
  The shape of the chart of a loaded page: the two base series in the slots 0 and 1, and
  nothing else but at most one moving-average series in the slot 2.
\<close>

definition base_series :: "chart \<Rightarrow> bool" where
  "base_series ch =
     (length (datasets ch) \<ge> 2 \<and>
      label (datasets ch ! 0) = ''Active Listings'' \<and> yAxisID (datasets ch ! 0) = ''y-listings'' \<and>
      label (datasets ch ! 1) = ''Avg Price/SqFt'' \<and> yAxisID (datasets ch ! 1) = ''y-price'')"

definition chart_shape :: "chart \<Rightarrow> bool" where
  "chart_shape ch =
     (base_series ch \<and>
      (length (datasets ch) = 2 \<or>
       length (datasets ch) = 3 \<and> borderColor (datasets ch ! 2) = ''#fdd663'' \<and>
         yAxisID (datasets ch ! 2) = ''y-price''))"

text \<open>A page whose chart is initialised and has that shape.\<close>

definition chart_ready :: "state \<Rightarrow> bool" where
  "chart_ready st = (case housingChart st of None \<Rightarrow> False | Some ch \<Rightarrow> chart_shape ch)"

section \<open>Example inputs\<close>

text \<open>A browser in UTC at the epoch whose random generator returns 0, and a blank page.\<close>

definition example_runtime :: runtime where
  "example_runtime =
     \<lparr>now = 0, LocalTZA = (\<lambda>t isUTC. 0), random = (\<lambda>k. 0), toLocaleShort = (\<lambda>s. s)\<rparr>"

definition blank_state :: state where
  "blank_state =
     \<lparr>housingChart = None, cachedData = None, timeframeSelect = ''all'', smaSelect = ''0'',
      currentListingsText = Text ''--'', currentPriceText = Text ''--'',
      priceChangeText = Text ''--'', priceChangeColor = '''', lastUpdateText = Text ''--''\<rparr>"

text \<open>A dataset of \<open>n\<close> days whose price on day \<open>i\<close> is \<open>start + i\<close>.\<close>

definition linear_point :: "real \<Rightarrow> nat \<Rightarrow> point" where
  "linear_point start i =
     \<lparr>date = ''2025-01-01'', active_listings = Num 45, avg_price_per_sqft = Num (start + real i),
      data_source = ''historical''\<rparr>"

definition linear_dataset :: "real \<Rightarrow> nat \<Rightarrow> point list" where
  "linear_dataset start n = map (linear_point start) [0 ..< n]"

text \<open>
  A loaded page whose cache holds ten days of prices and whose selector asks for the
  7-day moving average over all of them.
\<close>

definition overlay_page :: state where
  "overlay_page =
     initializeChart
       (blank_state\<lparr>cachedData := Some (linear_dataset 100 10), smaSelect := ''7''\<rparr>)"

text \<open>
  A browser in New York on 10 November 2025 at 19:30 local time, which is
  2025-11-11T00:30Z. Daylight saving time ended on 2 November 2025 at 02:00 local time,
  06:00Z: before it local time is 4 hours behind UTC, after it 5 hours.
\<close>

definition new_york_runtime :: runtime where
  "new_york_runtime =
     \<lparr>now = 1762821000000,
      LocalTZA = (\<lambda>t isUTC.
        if isUTC then (if t < 1762063200000 then - 14400000 else - 18000000)
        else (if t < 1762048800000 then - 14400000 else - 18000000)),
      random = (\<lambda>k. 0),
      toLocaleShort = (\<lambda>s. s)\<rparr>"

section \<open>Properties of calculateSMA\<close>


lemma js_add_zero_left: "js_add (Num 0) v = v"
  by (cases v) simp_all

lemma js_div_one: "js_div v (Num 1) = v"
  by (cases v) simp_all



lemma sma_loop_eq:
  "sma_loop vs period i sma = sma @ map (sma_entry vs period) [i ..< length vs]"
proof (induction vs period i sma rule: sma_loop.induct)
  case (1 vs period i sma)
  show ?case
  proof (cases "i < length vs")
    case True
    then show ?thesis
      using "1" by (subst sma_loop.simps) (simp add: upt_conv_Cons)
  next
    case False
    then show ?thesis by (subst sma_loop.simps) simp
  qed
qed

lemma calculateSMA_eq:
  "calculateSMA vs period = map (sma_entry vs period) [0 ..< length vs]"
  by (simp add: calculateSMA_def sma_loop_eq)

lemma length_calculateSMA: "length (calculateSMA vs period) = length vs"
  by (simp add: calculateSMA_eq)

lemma nth_calculateSMA:
  "i < length vs \<Longrightarrow> calculateSMA vs period ! i = sma_entry vs period i"
  by (simp add: calculateSMA_eq)

lemma slice_window:
  assumes "lo \<le> hi" and "hi < length xs"
  shows "slice xs (int lo) (int hi + 1) = window xs lo hi"
proof -
  have "take (Suc hi - lo) (drop lo xs) = map (\<lambda>k. xs ! k) [lo ..< Suc hi]"
    using assms by (intro nth_equalityI) (auto simp del: upt_Suc)
  moreover have "slice_index (length xs) (int lo) = lo"
    using assms by (simp add: slice_index_def)
  moreover have "slice_index (length xs) (int hi + 1) = Suc hi"
    using assms by (simp add: slice_index_def nat_add_distrib)
  ultimately show ?thesis
    by (simp add: slice_def window_def)
qed



lemma js_sum_Num: "js_sum (map Num rs) = Num (sum_list rs)"
  by (induction rs) (simp_all add: js_sum_def)

text \<open>On finite values the mean of the specification is the usual one.\<close>

lemma arithmetic_mean_finite:
  "rs \<noteq> [] \<Longrightarrow> arithmetic_mean (map Num rs) = Num (sum_list rs / real (length rs))"
  by (simp add: arithmetic_mean_def js_sum_Num)



text \<open>
  Claim C10. With period 1 the moving average is the input itself, element by element: no
  entry is null and every window mean is the value at that index.
\<close>

theorem calculateSMA_period_one: "calculateSMA vs 1 = map Some vs"
proof (rule nth_equalityI)
  show "length (calculateSMA vs 1) = length (map Some vs)"
    by (simp add: length_calculateSMA)
next
  fix i
  assume "i < length (calculateSMA vs 1)"
  then have i: "i < length vs"
    by (simp add: length_calculateSMA)
  have "slice vs (int i) (int i + 1) = window vs i i"
    using i by (intro slice_window) auto
  then have "slice vs (int i) (int i + 1) = [vs ! i]"
    by (simp add: window_def)
  then show "calculateSMA vs 1 ! i = map Some vs ! i"
    using i by (simp add: nth_calculateSMA sma_entry_def js_add_zero_left js_div_one)
qed

section \<open>The timeframe filter\<close>

lemma parseInt_windows:
  "parseInt ''7'' = Some 7" "parseInt ''30'' = Some 30" "parseInt ''90'' = Some 90"
  "parseInt ''180'' = Some 180" "parseInt ''365'' = Some 365"
  by (simp_all add: parseInt_def is_white_space_def is_radix_digit_def digit_value_def
      radix_value_def)

lemma slice_from_negative:
  "0 < w \<Longrightarrow> slice_from xs (- int w) = last_points (min w (length xs)) xs"
proof -
  assume w: "0 < w"
  have "slice_index (length xs) (- int w) = length xs - min w (length xs)"
    using w by (simp add: slice_index_def)
  then show ?thesis
    by (simp add: slice_from_def last_points_def)
qed

lemma filteredData_window:
  "parseInt timeframe = Some (int w) \<Longrightarrow> 0 < w \<Longrightarrow> timeframe \<noteq> ''all'' \<Longrightarrow>
     filteredData cached timeframe = last_points (min w (length cached)) cached"
  by (simp add: filteredData_def slice_from_negative)

text \<open>
  Claim C4. For each of the numeric windows 7, 30, 90, 180 and 365 the timeframe filter
  returns the last \<open>min w |dataset|\<close> points of the dataset in their order, and for the
  window \<^verbatim>\<open>all\<close> it returns the whole dataset.
\<close>

theorem filteredData_last_points:
  "filteredData cached ''7'' = last_points (min 7 (length cached)) cached \<and>
   filteredData cached ''30'' = last_points (min 30 (length cached)) cached \<and>
   filteredData cached ''90'' = last_points (min 90 (length cached)) cached \<and>
   filteredData cached ''180'' = last_points (min 180 (length cached)) cached \<and>
   filteredData cached ''365'' = last_points (min 365 (length cached)) cached \<and>
   filteredData cached ''all'' = cached"
proof (intro conjI)
  show "filteredData cached ''7'' = last_points (min 7 (length cached)) cached"
    using filteredData_window [of "''7''" 7] by (simp add: parseInt_windows)
  show "filteredData cached ''30'' = last_points (min 30 (length cached)) cached"
    using filteredData_window [of "''30''" 30] by (simp add: parseInt_windows)
  show "filteredData cached ''90'' = last_points (min 90 (length cached)) cached"
    using filteredData_window [of "''90''" 90] by (simp add: parseInt_windows)
  show "filteredData cached ''180'' = last_points (min 180 (length cached)) cached"
    using filteredData_window [of "''180''" 180] by (simp add: parseInt_windows)
  show "filteredData cached ''365'' = last_points (min 365 (length cached)) cached"
    using filteredData_window [of "''365''" 365] by (simp add: parseInt_windows)
  show "filteredData cached ''all'' = cached"
    by (simp add: filteredData_def)
qed

lemma last_points_suffix:
  "k \<le> length xs \<Longrightarrow>
     length (last_points k xs) = k \<and>
     (\<forall>j < k. last_points k xs ! j = xs ! (length xs - k + j))"
  by (simp add: last_points_def)

section \<open>The cached dataset is only read\<close>

text \<open>
  Claim C9. \<^verbatim>\<open>updateChart\<close> and \<^verbatim>\<open>updateStats\<close> leave the cached dataset as it is: its
  length, its order and every field of every point. The arrays that reach the chart are
  the fresh results of \<^verbatim>\<open>map\<close> and \<^verbatim>\<open>calculateSMA\<close>.
\<close>

theorem derivations_keep_cachedData:
  "cachedData (state_after (updateChart rt st)) = cachedData st \<and>
   cachedData (updateStats rt st) = cachedData st"
proof
  show "cachedData (state_after (updateChart rt st)) = cachedData st"
    by (simp add: updateChart_def Let_def split: option.split)
  show "cachedData (updateStats rt st) = cachedData st"
    by (simp add: updateStats_def Let_def split: option.split)
qed

section \<open>The overlay series\<close>

lemma list_of_length_2: "length ds = 2 \<Longrightarrow> \<exists>a b. ds = [a, b]"
  by (auto simp: numeral_2_eq_2 length_Suc_conv)

lemma list_of_length_3: "length ds = 3 \<Longrightarrow> \<exists>a b c. ds = [a, b, c]"
  by (auto simp: numeral_3_eq_3 length_Suc_conv)

lemma apply_sma_absent:
  assumes "length ds = 2 \<or> length ds = 3" and "\<not> sma_applies sp (length filtered)"
  shows "apply_sma sp filtered pd ds = take 2 ds"
proof -
  have "(if length ds > 2 then butlast ds else ds) = take 2 ds"
    using assms(1) list_of_length_3 [of ds] by auto
  then show ?thesis
    using assms(2) by (auto simp: apply_sma_def sma_applies_def split: option.split)
qed

lemma apply_sma_present:
  assumes "length ds = 2 \<or> length ds = 3" and "sp = Some p"
    and "sma_applies sp (length filtered)"
  shows "apply_sma sp filtered pd ds =
           take 2 ds @
           [if length ds = 2 then sma_dataset p (calculateSMA pd p)
            else (ds ! 2)\<lparr>data := calculateSMA pd p, label := sma_label p\<rparr>]"
proof (cases "length ds = 2")
  case True
  then show ?thesis
    using assms by (simp add: apply_sma_def sma_applies_def)
next
  case False
  then obtain a b c where "ds = [a, b, c]"
    using assms(1) list_of_length_3 [of ds] by auto
  then show ?thesis
    using assms by (simp add: apply_sma_def sma_applies_def)
qed

text \<open>
  What \<^verbatim>\<open>updateChart\<close> does on a page whose chart is ready and whose cache is not empty.
\<close>

lemma updateChart_ready:
  assumes ready: "chart_ready st" and cached: "cachedData st = Some cached" "cached \<noteq> []"
  defines "filtered \<equiv> filteredData cached (timeframeSelect st)"
  defines "prices \<equiv> map avg_price_per_sqft filtered"
  shows "\<exists>ch'. updateChart rt st = Inr (st\<lparr>housingChart := Some ch'\<rparr>) \<and>
           chart_shape ch' \<and>
           labels ch' = map (\<lambda>d. formatDate rt (date d)) filtered \<and>
           data (datasets ch' ! 0) = map Some (map active_listings filtered) \<and>
           data (datasets ch' ! 1) = map Some prices \<and>
           (sma_applies (parseInt (smaSelect st)) (length filtered) \<longrightarrow>
              (\<exists>p. parseInt (smaSelect st) = Some p \<and>
                   overlay ch' = [sma_dataset p (calculateSMA prices p)])) \<and>
           (\<not> sma_applies (parseInt (smaSelect st)) (length filtered) \<longrightarrow> overlay ch' = [])"
proof -
  obtain ch where ch: "housingChart st = Some ch" and shape: "chart_shape ch"
    using ready by (auto simp: chart_ready_def split: option.splits)
  let ?sp = "parseInt (smaSelect st)"
  let ?d0 = "(datasets ch ! 0)\<lparr>data := map Some (map active_listings filtered)\<rparr>"
  let ?d1 = "(datasets ch ! 1)\<lparr>data := map Some prices\<rparr>"
  let ?ds = "(datasets ch)[0 := ?d0, 1 := ?d1]"
  let ?ch' = "ch\<lparr>labels := map (\<lambda>d. formatDate rt (date d)) filtered,
                   datasets := apply_sma ?sp filtered prices ?ds\<rparr>"
  have len: "length (datasets ch) = 2 \<or> length (datasets ch) = 3"
    using shape by (auto simp: chart_shape_def)
  have run: "updateChart rt st = Inr (st\<lparr>housingChart := Some ?ch'\<rparr>)"
    using ch cached len
    by (auto simp: updateChart_def Let_def filtered_def prices_def)
  have len': "length ?ds = 2 \<or> length ?ds = 3"
    using len by simp
  have two: "take 2 ?ds = [?d0, ?d1]"
    using len list_of_length_2 [of "datasets ch"] list_of_length_3 [of "datasets ch"] by auto
  have third: "length ?ds \<noteq> 2 \<Longrightarrow> ?ds ! 2 = datasets ch ! 2"
    using len by auto
  show ?thesis
  proof (cases "sma_applies ?sp (length filtered)")
    case False
    then have ds: "datasets ?ch' = [?d0, ?d1]"
      using apply_sma_absent [OF len', of ?sp filtered prices] two by simp
    have "chart_shape ?ch'"
      using shape ds by (simp add: chart_shape_def base_series_def)
    moreover have "overlay ?ch' = []"
      using ds by (simp add: overlay_def)
    ultimately show ?thesis
      using run False ds by (intro exI [of _ ?ch']) simp
  next
    case True
    then obtain p where p: "?sp = Some p"
      by (auto simp: sma_applies_def split: option.splits)
    let ?o = "if length ?ds = 2 then sma_dataset p (calculateSMA prices p)
              else (?ds ! 2)\<lparr>data := calculateSMA prices p, label := sma_label p\<rparr>"
    have ds: "datasets ?ch' = [?d0, ?d1, ?o]"
      using apply_sma_present [OF len' p, of filtered prices] True two by simp
    have o: "?o = sma_dataset p (calculateSMA prices p)"
      using shape len third by (auto simp: chart_shape_def sma_dataset_def)
    have "chart_shape ?ch'"
      using shape ds o by (simp add: chart_shape_def base_series_def sma_dataset_def)
    moreover have "overlay ?ch' = [sma_dataset p (calculateSMA prices p)]"
      using ds o by (simp add: overlay_def)
    ultimately show ?thesis
      using run True ds p by (intro exI [of _ ?ch']) simp
  qed
qed

lemma updateChart_keeps_ready:
  assumes "chart_ready st"
  shows "\<exists>st'. updateChart rt st = Inr st' \<and> chart_ready st' \<and> cachedData st' = cachedData st"
proof (cases "cachedData st")
  case None
  then show ?thesis
    using assms by (simp add: updateChart_def)
next
  case (Some cached)
  show ?thesis
  proof (cases "cached = []")
    case True
    then show ?thesis
      using assms Some by (simp add: updateChart_def)
  next
    case False
    obtain ch' where "updateChart rt st = Inr (st\<lparr>housingChart := Some ch'\<rparr>)" "chart_shape ch'"
      using updateChart_ready [OF assms Some False, of rt] by blast
    then show ?thesis
      by (simp add: chart_ready_def)
  qed
qed

lemma updateStats_keeps_ready:
  "chart_ready (updateStats rt st) = chart_ready st"
  by (simp add: updateStats_def chart_ready_def Let_def split: option.split)

lemma updateStats_keeps_cachedData:
  "cachedData (updateStats rt st) = cachedData st"
  by (simp add: updateStats_def Let_def split: option.split)

lemma chart_ready_cachedData_update:
  "chart_ready (st\<lparr>cachedData := c\<rparr>) = chart_ready st"
  by (simp add: chart_ready_def)

lemma chart_ready_select_update:
  "chart_ready (st\<lparr>timeframeSelect := t, smaSelect := s\<rparr>) = chart_ready st"
  by (simp add: chart_ready_def)

text \<open>Drawing a dataset: \<^verbatim>\<open>updateChart\<close> and then \<^verbatim>\<open>updateStats\<close> on a ready page.\<close>

lemma draw_ready:
  assumes "chart_ready st"
  shows "\<exists>st'. updateChart rt (st\<lparr>cachedData := c\<rparr>) = Inr st' \<and>
           chart_ready (updateStats rt st') \<and> cachedData (updateStats rt st') = c"
proof -
  have "chart_ready (st\<lparr>cachedData := c\<rparr>)"
    using assms by (simp add: chart_ready_cachedData_update)
  then obtain st' where "updateChart rt (st\<lparr>cachedData := c\<rparr>) = Inr st'"
    "chart_ready st'" "cachedData st' = c"
    using updateChart_keeps_ready [of "st\<lparr>cachedData := c\<rparr>" rt] by auto
  then show ?thesis
    by (simp add: updateStats_keeps_ready updateStats_keeps_cachedData)
qed

lemma useDemoData_ready:
  assumes "chart_ready st"
  shows "\<exists>st'. useDemoData rt st = Inr st' \<and> chart_ready st' \<and>
           cachedData st' = Some (demo_data rt)"
  using draw_ready [OF assms, of rt "Some (demo_data rt)"]
  by (auto simp: useDemoData_def)

lemma try_load_ready:
  assumes "chart_ready st"
  shows "case try_load rt f st of
           Inl (err, st') \<Rightarrow> st' = st \<and> (\<forall>json. f \<noteq> Response True (Payload json))
         | Inr st' \<Rightarrow> chart_ready st' \<and> (\<exists>json. f = Response True (Payload json) \<and>
                                           cachedData st' = Some json)"
proof (cases f)
  case Rejected
  then show ?thesis by (simp add: try_load_def)
next
  case (Response ok b)
  show ?thesis
  proof (cases "ok")
    case False
    then show ?thesis using Response by (simp add: try_load_def)
  next
    case True
    show ?thesis
    proof (cases b)
      case NotJson
      then show ?thesis using Response True by (simp add: try_load_def)
    next
      case (Payload json)
      then show ?thesis
        using Response True draw_ready [OF assms, of rt "Some json"]
        by (auto simp: try_load_def)
    qed
  qed
qed

lemma loadData_ready:
  assumes "chart_ready st"
  shows "\<exists>st'. loadData rt f st = Inr st' \<and> chart_ready st' \<and>
           cachedData st' =
             (case f of Response True (Payload json) \<Rightarrow> Some json | _ \<Rightarrow> Some (demo_data rt))"
proof (cases "try_load rt f st")
  case (Inl thrown)
  obtain err st1 where thrown: "thrown = (err, st1)"
    by (cases thrown)
  have st1: "st1 = st" and f: "\<forall>json. f \<noteq> Response True (Payload json)"
    using try_load_ready [OF assms, where rt = rt and f = f] Inl thrown by auto
  have "(case f of Response True (Payload json) \<Rightarrow> Some json | _ \<Rightarrow> Some (demo_data rt))
          = Some (demo_data rt)"
    using f by (auto split: fetched.split body.split bool.split)
  then show ?thesis
    using useDemoData_ready [OF assms, of rt] Inl thrown st1
    by (auto simp: loadData_def)
next
  case (Inr st')
  then show ?thesis
    using try_load_ready [OF assms, where rt = rt and f = f]
    by (auto simp: loadData_def)
qed

lemma reachable_ready: "reachable st \<Longrightarrow> chart_ready st"
proof (induction rule: reachable.induct)
  case (initial st)
  show ?case
    by (simp add: initializeChart_def chart_ready_def chart_shape_def base_series_def
        initial_chart_def)
next
  case (change st rt s t st')
  then show ?case
    using updateChart_keeps_ready [of "st\<lparr>timeframeSelect := t, smaSelect := s\<rparr>" rt]
    by (auto simp: chart_ready_select_update)
next
  case (load st rt f st')
  then show ?case
    using loadData_ready [of st rt f] by auto
qed

text \<open>
  Claim C3. On a loaded page with a non-empty cache, \<^verbatim>\<open>updateChart\<close> leaves the chart with
  an overlay series exactly when the selected period is above 0 and the filtered dataset
  has at least that many points. The chart then holds the two base series in the slots 0
  and 1 and nothing else but the overlay in the slot 2; the overlay is the one computed
  by this call, and with the period 0 there is none, whatever the chart held before.
\<close>

theorem updateChart_overlay_iff:
  assumes "reachable st" and "cachedData st = Some cached" and "cached \<noteq> []"
  shows "\<exists>ch'. updateChart rt st = Inr (st\<lparr>housingChart := Some ch'\<rparr>) \<and>
           base_series ch' \<and>
           (length (datasets ch') = 2 \<or> length (datasets ch') = 3) \<and>
           (overlay ch' \<noteq> [] \<longleftrightarrow>
              (\<exists>p. parseInt (smaSelect st) = Some p \<and> p > 0 \<and>
                   int (length (filteredData cached (timeframeSelect st))) \<ge> p)) \<and>
           (parseInt (smaSelect st) = Some 0 \<longrightarrow> overlay ch' = []) \<and>
           (\<forall>p. overlay ch' \<noteq> [] \<longrightarrow> parseInt (smaSelect st) = Some p \<longrightarrow>
              overlay ch' =
                [sma_dataset p
                   (calculateSMA
                      (map avg_price_per_sqft (filteredData cached (timeframeSelect st))) p)])"
proof -
  let ?filtered = "filteredData cached (timeframeSelect st)"
  let ?sp = "parseInt (smaSelect st)"
  obtain ch' where run: "updateChart rt st = Inr (st\<lparr>housingChart := Some ch'\<rparr>)"
    and shape: "chart_shape ch'"
    and present: "sma_applies ?sp (length ?filtered) \<longrightarrow>
      (\<exists>p. ?sp = Some p \<and>
           overlay ch' = [sma_dataset p (calculateSMA (map avg_price_per_sqft ?filtered) p)])"
    and absent: "\<not> sma_applies ?sp (length ?filtered) \<longrightarrow> overlay ch' = []"
    using updateChart_ready [OF reachable_ready [OF assms(1)] assms(2) assms(3), of rt]
    by blast
  have applies: "sma_applies ?sp (length ?filtered) \<longleftrightarrow>
      (\<exists>p. ?sp = Some p \<and> p > 0 \<and> int (length ?filtered) \<ge> p)"
    by (auto simp: sma_applies_def split: option.splits)
  have iff: "overlay ch' \<noteq> [] \<longleftrightarrow> sma_applies ?sp (length ?filtered)"
    using present absent by auto
  have "base_series ch'" and "length (datasets ch') = 2 \<or> length (datasets ch') = 3"
    using shape by (auto simp: chart_shape_def)
  moreover have "?sp = Some 0 \<longrightarrow> overlay ch' = []"
    using absent by (auto simp: sma_applies_def)
  moreover have "\<forall>p. overlay ch' \<noteq> [] \<longrightarrow> ?sp = Some p \<longrightarrow>
      overlay ch' = [sma_dataset p (calculateSMA (map avg_price_per_sqft ?filtered) p)]"
    using present iff by auto
  ultimately show ?thesis
    using run iff applies by blast
qed

lemma length_linear_dataset: "length (linear_dataset start n) = n"
  by (simp add: linear_dataset_def)

theorem updateChart_overlay_iff_witness:
  "reachable overlay_page \<and>
   cachedData overlay_page = Some (linear_dataset 100 10) \<and>
   linear_dataset 100 10 \<noteq> [] \<and>
   (\<exists>ch'. updateChart example_runtime overlay_page =
            Inr (overlay_page\<lparr>housingChart := Some ch'\<rparr>) \<and>
          length (datasets ch') = 3 \<and>
          overlay ch' =
            [sma_dataset 7 (calculateSMA (map avg_price_per_sqft (linear_dataset 100 10)) 7)])"
proof -
  have r: "reachable overlay_page"
    unfolding overlay_page_def by (rule reachable.initial)
  have c: "cachedData overlay_page = Some (linear_dataset 100 10)"
    by (simp add: overlay_page_def initializeChart_def)
  have n: "linear_dataset 100 10 \<noteq> []"
    using length_linear_dataset [of 100 10] by auto
  have sel: "smaSelect overlay_page = ''7''" "timeframeSelect overlay_page = ''all''"
    by (simp_all add: overlay_page_def initializeChart_def blank_state_def)
  have filtered: "filteredData (linear_dataset 100 10) ''all'' = linear_dataset 100 10"
    by (simp add: filteredData_def)
  obtain ch' where run: "updateChart example_runtime overlay_page =
      Inr (overlay_page\<lparr>housingChart := Some ch'\<rparr>)"
    and len: "length (datasets ch') = 2 \<or> length (datasets ch') = 3"
    and iff: "overlay ch' \<noteq> [] \<longleftrightarrow>
      (\<exists>p. parseInt ''7'' = Some p \<and> p > 0 \<and> int (length (linear_dataset 100 10)) \<ge> p)"
    and fresh: "\<forall>p. overlay ch' \<noteq> [] \<longrightarrow> parseInt ''7'' = Some p \<longrightarrow>
      overlay ch' =
        [sma_dataset p (calculateSMA (map avg_price_per_sqft (linear_dataset 100 10)) p)]"
    using updateChart_overlay_iff [OF r c n, of example_runtime] sel filtered by auto
  have present: "overlay ch' \<noteq> []"
    using iff by (simp add: parseInt_windows length_linear_dataset)
  then have "overlay ch' =
      [sma_dataset 7 (calculateSMA (map avg_price_per_sqft (linear_dataset 100 10)) 7)]"
    using fresh by (simp add: parseInt_windows)
  moreover have "length (datasets ch') = 3"
    using present len by (auto simp: overlay_def)
  ultimately show ?thesis
    using r c n run by blast
qed

section \<open>The statistics cards\<close>







lemma latest_point_last: "cached \<noteq> [] \<Longrightarrow> latest_point cached = last cached"
  by (simp add: latest_point_def last_conv_nth)

lemma thirtyDaysAgo_index:
  "thirtyDaysAgo cached = cached ! nat (max 0 (int (length cached) - 1 - 30))"
  by (simp add: thirtyDaysAgo_def)


lemma updateStats_priceChangeText:
  "cachedData st = Some cached \<Longrightarrow> cached \<noteq> [] \<Longrightarrow>
     priceChangeText (updateStats rt st) = Text (price_change_text (price_change cached))"
  by (simp add: updateStats_def Let_def)






text \<open>
  Claim C6, as the script has it. When the price of the reference point is 0 the script
  divides by it all the same, and the card shows the outcome of that division:
  \<^verbatim>\<open>+Infinity%\<close> when the latest price is above 0, \<^verbatim>\<open>-Infinity%\<close> when it is below 0, and
  \<^verbatim>\<open>NaN%\<close> when it is 0 or NaN.
\<close>

theorem updateStats_zero_reference:
  assumes "cachedData st = Some cached" and "cached \<noteq> []"
    and "avg_price_per_sqft (cached ! nat (max 0 (int (length cached) - 1 - 30))) = Num 0"
  shows "priceChangeText (updateStats rt st) =
           Text (if js_sign (avg_price_per_sqft (last cached)) > 0 then ''+Infinity%''
                 else if js_sign (avg_price_per_sqft (last cached)) < 0 then ''-Infinity%''
                 else ''NaN%'')"
proof -
  let ?v = "avg_price_per_sqft (last cached)"
  have "price_change cached = js_mul (js_div (js_sub ?v (Num 0)) (Num 0)) (Num 100)"
    using assms(2) assms(3)
    by (simp add: price_change_def latest_point_last thirtyDaysAgo_index)
  moreover have "price_change_text (js_mul (js_div (js_sub ?v (Num 0)) (Num 0)) (Num 100)) =
      (if js_sign ?v > 0 then ''+Infinity%'' else if js_sign ?v < 0 then ''-Infinity%''
       else ''NaN%'')"
    by (cases ?v) (simp_all add: js_sub_def price_change_text_def)
  ultimately show ?thesis
    using updateStats_priceChangeText [OF assms(1) assms(2), of rt] by simp
qed

theorem updateStats_zero_reference_witness:
  "cachedData (blank_state\<lparr>cachedData := Some (linear_dataset 0 1)\<rparr>)
     = Some (linear_dataset 0 1) \<and>
   linear_dataset 0 1 \<noteq> [] \<and>
   avg_price_per_sqft
     (linear_dataset 0 1 ! nat (max 0 (int (length (linear_dataset 0 1)) - 1 - 30))) = Num 0 \<and>
   priceChangeText
     (updateStats example_runtime (blank_state\<lparr>cachedData := Some (linear_dataset 0 1)\<rparr>))
     = Text ''NaN%''"
proof -
  let ?st = "blank_state\<lparr>cachedData := Some (linear_dataset 0 1)\<rparr>"
  have c: "cachedData ?st = Some (linear_dataset 0 1)"
    by simp
  have n: "linear_dataset 0 1 \<noteq> []"
    by (simp add: linear_dataset_def)
  have r: "avg_price_per_sqft
      (linear_dataset 0 1 ! nat (max 0 (int (length (linear_dataset 0 1)) - 1 - 30))) = Num 0"
    by (simp add: linear_dataset_def linear_point_def)
  have l: "avg_price_per_sqft (last (linear_dataset 0 1)) = Num 0"
    by (simp add: linear_dataset_def linear_point_def)
  show ?thesis
    using updateStats_zero_reference [OF c n r, of example_runtime] c n r l by simp
qed

text \<open>
  The claim C6 as worded fails: with the prices 0 and 1 the reference price is 0 and the
  card shows \<^verbatim>\<open>+Infinity%\<close>.
\<close>

theorem updateStats_zero_reference_counterexample:
  "avg_price_per_sqft
     (linear_dataset 0 2 ! nat (max 0 (int (length (linear_dataset 0 2)) - 1 - 30))) = Num 0 \<and>
   priceChangeText
     (updateStats example_runtime (blank_state\<lparr>cachedData := Some (linear_dataset 0 2)\<rparr>))
     = Text ''+Infinity%''"
proof -
  have d: "linear_dataset 0 2 = [linear_point 0 0, linear_point 0 1]"
    by (simp add: linear_dataset_def upt_rec)
  have "price_change (linear_dataset 0 2) = PosInf"
    by (simp add: d price_change_def latest_point_def thirtyDaysAgo_def linear_point_def
        js_sub_def)
  then have "priceChangeText
      (updateStats example_runtime (blank_state\<lparr>cachedData := Some (linear_dataset 0 2)\<rparr>))
      = Text ''+Infinity%''"
    by (simp add: updateStats_def d price_change_text_def Let_def)
  moreover have "avg_price_per_sqft
      (linear_dataset 0 2 ! nat (max 0 (int (length (linear_dataset 0 2)) - 1 - 30))) = Num 0"
    by (simp add: d linear_point_def)
  ultimately show ?thesis by simp
qed

section \<open>The demo data\<close>

lemma demo_loop_eq:
  "demo_loop rt i k cached =
     cached @ map (\<lambda>j. demo_point rt (i - int j) (random rt (k + 2 * j)) (random rt (k + 2 * j + 1)))
                [0 ..< nat (i + 1)]"
proof (induction rt i k cached rule: demo_loop.induct)
  case (1 rt i k cached)
  show ?case
  proof (cases "i \<ge> 0")
    case False
    then show ?thesis
      by (subst demo_loop.simps) simp
  next
    case True
    then have n: "nat (i + 1) = Suc (nat i)"
      by simp
    have shift: "[0 ..< Suc (nat i)] = 0 # map Suc [0 ..< nat i]"
      by (simp add: upt_conv_Cons map_Suc_upt del: upt_Suc)
    have "demo_loop rt i k cached =
        demo_loop rt (i - 1) (k + 2) (cached @ [demo_point rt i (random rt k) (random rt (k + 1))])"
      using True by (subst demo_loop.simps) simp
    also have "\<dots> = (cached @ [demo_point rt i (random rt k) (random rt (k + 1))]) @
        map (\<lambda>j. demo_point rt (i - 1 - int j) (random rt (k + 2 + 2 * j))
               (random rt (k + 2 + 2 * j + 1))) [0 ..< nat i]"
      using "1" True by simp
    also have "\<dots> = cached @
        map (\<lambda>j. demo_point rt (i - int j) (random rt (k + 2 * j)) (random rt (k + 2 * j + 1)))
          [0 ..< nat (i + 1)]"
      unfolding n shift by (simp add: comp_def algebra_simps)
    finally show ?thesis .
  qed
qed

lemma demo_data_eq:
  "demo_data rt =
     map (\<lambda>j. demo_point rt (90 - int j) (random rt (2 * j)) (random rt (2 * j + 1))) [0 ..< 91]"
  by (simp add: demo_data_def demo_loop_eq)

lemma length_demo_data: "length (demo_data rt) = 91"
  by (simp add: demo_data_eq)

lemma nth_demo_data:
  "j < 91 \<Longrightarrow>
     demo_data rt ! j = demo_point rt (90 - int j) (random rt (2 * j)) (random rt (2 * j + 1))"
  by (simp add: demo_data_eq del: upt_Suc)

lemma data_source_demo_data:
  "j < 91 \<Longrightarrow>
     data_source (demo_data rt ! j) = (if j < 60 then ''historical'' else ''scraped'')"
  by (auto simp: nth_demo_data demo_point_def Let_def)

lemma date_demo_data:
  "j < 91 \<Longrightarrow>
     date (demo_data rt ! j) =
       toISODate (setDate rt (now rt) (getDate rt (now rt) - (90 - int j)))"
  by (simp add: nth_demo_data demo_point_def Let_def)

lemma Math_round_nonneg: "- 1 / 2 \<le> x \<Longrightarrow> 0 \<le> Math_round x"
  by (simp add: Math_round_def)

lemma fixed_value_nonneg: "0 \<le> x \<Longrightarrow> 0 \<le> fixed_value f x"
  by (simp add: fixed_value_def)

text \<open>
  With the jitter inside its band the two sums of a demo point stay far above 0: the
  listings are at least 38.5 and the price at least 437.5.
\<close>

lemma listings_nonneg:
  assumes "- 1 \<le> s" and "0 \<le> r"
  shows "0 \<le> Math_round (45 + s * 5 + (r - 0.5) * 3)"
proof -
  have "385 / 10 \<le> 45 + s * 5 + (r - 0.5) * 3"
    using assms by (simp add: algebra_simps)
  then show ?thesis
    by (intro Math_round_nonneg) linarith
qed

lemma price_nonneg:
  assumes "- 1 \<le> s" and "0 \<le> r" and "i \<le> 90"
  shows "0 \<le> fixed_value 2 (450 + (90 - real_of_int i) * 0.5 + s * 10 + (r - 0.5) * 5)"
proof -
  have "real_of_int i \<le> 90"
    using assms(3) by simp
  then have "4375 / 10 \<le> 450 + (90 - real_of_int i) * 0.5 + s * 10 + (r - 0.5) * 5"
    using assms(1) assms(2) by (simp add: algebra_simps)
  then show ?thesis
    by (intro fixed_value_nonneg) linarith
qed

lemma demo_point_nonneg:
  assumes "i \<le> 90" and "0 \<le> r1" and "0 \<le> r2"
  shows "\<exists>a b. active_listings (demo_point rt i r1 r2) = Num a \<and> 0 \<le> a \<and>
               avg_price_per_sqft (demo_point rt i r1 r2) = Num b \<and> 0 \<le> b"
  using listings_nonneg [OF sin_ge_minus_one assms(2), of "real_of_int i / 15"]
    price_nonneg [OF sin_ge_minus_one assms(3) assms(1), of "real_of_int i / 10"]
  by (simp add: demo_point_def Let_def)

text \<open>
  Claim C8. Every point of the demo data has a number of listings and a price that are
  not below 0, whatever values in \<open>[0, 1)\<close> the random generator returns.
\<close>

theorem demo_data_nonnegative:
  assumes "\<forall>k. 0 \<le> random rt k \<and> random rt k < 1"
  shows "\<forall>p \<in> set (demo_data rt).
           js_ge (active_listings p) (Num 0) \<and> js_ge (avg_price_per_sqft p) (Num 0)"
proof
  fix p
  assume "p \<in> set (demo_data rt)"
  then obtain j where j: "j < 91" and p: "p = demo_data rt ! j"
    by (auto simp: in_set_conv_nth length_demo_data)
  have "\<exists>a b. active_listings p = Num a \<and> 0 \<le> a \<and> avg_price_per_sqft p = Num b \<and> 0 \<le> b"
    unfolding p nth_demo_data [OF j]
    using assms by (intro demo_point_nonneg) auto
  then show "js_ge (active_listings p) (Num 0) \<and> js_ge (avg_price_per_sqft p) (Num 0)"
    by auto
qed

theorem demo_data_nonnegative_witness:
  "(\<forall>k. 0 \<le> random example_runtime k \<and> random example_runtime k < 1) \<and>
   demo_data example_runtime ! 0 \<in> set (demo_data example_runtime) \<and>
   js_ge (active_listings (demo_data example_runtime ! 0)) (Num 0) \<and>
   js_ge (avg_price_per_sqft (demo_data example_runtime ! 0)) (Num 0)"
proof -
  have r: "\<forall>k. 0 \<le> random example_runtime k \<and> random example_runtime k < 1"
    by (simp add: example_runtime_def)
  have m: "demo_data example_runtime ! 0 \<in> set (demo_data example_runtime)"
    by (rule nth_mem) (simp add: length_demo_data)
  show ?thesis
    using demo_data_nonnegative [OF r] r m by blast
qed

section \<open>The dates of the demo data\<close>

lemma div_bounds:
  fixes a b :: int
  assumes "0 < b"
  shows "b * (a div b) \<le> a \<and> a < b * (a div b) + b"
proof -
  have "a = b * (a div b) + a mod b" by simp
  moreover have "0 \<le> a mod b" "a mod b < b" using assms by simp_all
  ultimately show ?thesis by linarith
qed

lemma year_of_era_props:
  assumes doe: "0 \<le> doe" "doe < 146097" and eq: "year_of_era doe = (yoe, doy)"
  shows "0 \<le> yoe \<and> yoe \<le> 399 \<and> 0 \<le> doy \<and> doy \<le> 365 \<and>
         yoe * 365 + yoe div 4 - yoe div 100 + doy = doe"
proof -
  define k1 where "k1 = doe div 36524"
  define c where "c = min k1 3"
  define r1 where "r1 = doe - c * 36524"
  define q where "q = r1 div 1461"
  define r2 where "r2 = r1 - q * 1461"
  define k2 where "k2 = r2 div 365"
  define yy where "yy = min k2 3"
  have yoe: "yoe = c * 100 + q * 4 + yy" and doy: "doy = r2 - yy * 365"
    using eq by (simp_all add: year_of_era_def Let_def k1_def c_def r1_def q_def r2_def k2_def yy_def)
  have k1: "36524 * k1 \<le> doe" "doe < 36524 * k1 + 36524"
    using div_bounds [of 36524 doe] by (simp_all add: k1_def)
  have c: "0 \<le> c" "c \<le> 3" "c \<le> k1" "c = k1 \<or> c = 3"
    using k1 doe by (auto simp: c_def min_def)
  have r1: "0 \<le> r1" "r1 \<le> 36524"
    using k1 c doe unfolding r1_def by linarith+
  have qb: "1461 * q \<le> r1" "r1 < 1461 * q + 1461"
    using div_bounds [of 1461 r1] by (simp_all add: q_def)
  have q: "0 \<le> q" "q \<le> 24"
    using qb r1 by linarith+
  have r2: "0 \<le> r2" "r2 \<le> 1460"
    using qb unfolding r2_def by linarith+
  have k2: "365 * k2 \<le> r2" "r2 < 365 * k2 + 365"
    using div_bounds [of 365 r2] by (simp_all add: k2_def)
  have yy: "0 \<le> yy" "yy \<le> 3" "yy \<le> k2" "yy = k2 \<or> yy = 3"
    using k2 r2 by (auto simp: yy_def min_def)
  have doyb: "0 \<le> doy" "doy \<le> 365"
    using k2 yy r2 unfolding doy by linarith+
  have d4: "yoe div 4 = c * 25 + q"
    using yy by (intro int_div_pos_eq [where r = yy]) (simp_all add: yoe)
  have d100: "yoe div 100 = c"
    using q yy by (intro int_div_pos_eq [where r = "q * 4 + yy"]) (simp_all add: yoe)
  have "yoe * 365 + yoe div 4 - yoe div 100 + doy = doe"
    unfolding d4 d100 unfolding yoe doy r2_def r1_def by simp
  moreover have "0 \<le> yoe" "yoe \<le> 399"
    using c q yy unfolding yoe by linarith+
  ultimately show ?thesis
    using doyb by simp
qed

lemma month_of_year_day_props:
  assumes doy: "0 \<le> doy" "doy \<le> 365" and eq: "month_of_year_day doy = (m, d)"
  shows "1 \<le> m \<and> m \<le> 12 \<and>
         (153 * (if m > 2 then m - 3 else m + 9) + 2) div 5 + d - 1 = doy"
proof -
  define mp where "mp = (5 * doy + 2) div 153"
  have m: "m = (if mp < 10 then mp + 3 else mp - 9)"
    and d: "d = doy - (153 * mp + 2) div 5 + 1"
    using eq by (auto simp: month_of_year_day_def Let_def mp_def)
  have "153 * mp \<le> 5 * doy + 2" "5 * doy + 2 < 153 * mp + 153"
    using div_bounds [of 153 "5 * doy + 2"] by (simp_all add: mp_def)
  then have mp: "0 \<le> mp" "mp \<le> 11"
    using doy by linarith+
  have "(if m > 2 then m - 3 else m + 9) = mp"
    using mp m by auto
  then show ?thesis
    using mp m d by auto
qed

lemma civil_roundtrip:
  assumes "civil_from_days z0 = (y, m, d)"
  shows "1 \<le> m \<and> m \<le> 12 \<and> days_from_civil y m 1 + d - 1 = z0"
proof -
  define z where "z = z0 + 719468"
  obtain yoe doy where yd: "year_of_era (z mod 146097) = (yoe, doy)"
    by (cases "year_of_era (z mod 146097)")
  obtain m' d' where md: "month_of_year_day doy = (m', d')"
    by (cases "month_of_year_day doy")
  have res: "y = yoe + (z div 146097) * 400 + (if m \<le> 2 then 1 else 0)" "m' = m" "d' = d"
    using assms yd md by (auto simp: civil_from_days_def Let_def z_def)
  have ye: "0 \<le> yoe" "yoe \<le> 399" "0 \<le> doy" "doy \<le> 365"
    "yoe * 365 + yoe div 4 - yoe div 100 + doy = z mod 146097"
    using year_of_era_props [OF _ _ yd] by simp_all
  have mo: "1 \<le> m" "m \<le> 12" "(153 * (if m > 2 then m - 3 else m + 9) + 2) div 5 + d - 1 = doy"
  proof -
    have "month_of_year_day doy = (m, d)"
      using md res by simp
    from month_of_year_day_props [OF ye(3) ye(4) this]
    show "1 \<le> m" "m \<le> 12"
      "(153 * (if m > 2 then m - 3 else m + 9) + 2) div 5 + d - 1 = doy"
      by blast+
  qed
  have y': "(if m \<le> 2 then y - 1 else y) = yoe + (z div 146097) * 400"
    using res by auto
  have e: "(yoe + (z div 146097) * 400) div 400 = z div 146097"
    "(yoe + (z div 146097) * 400) mod 400 = yoe"
    using ye by (simp_all add: div_pos_pos_trivial)
  have "days_from_civil y m 1 + d - 1 =
      (z div 146097) * 146097 +
      (yoe * 365 + yoe div 4 - yoe div 100 +
       ((153 * (if m > 2 then m - 3 else m + 9) + 2) div 5 + d - 1)) - 719468"
    unfolding days_from_civil_def Let_def y' e by simp
  also have "\<dots> = (z div 146097) * 146097 + z mod 146097 - 719468"
    unfolding mo(3) ye(5) by simp
  also have "\<dots> = z0"
    by (simp add: z_def)
  finally show ?thesis
    using mo by simp
qed

lemma MakeDay_of_time:
  "MakeDay (YearFromTime t) (MonthFromTime t) dt = Day t - DateFromTime t + dt"
proof -
  obtain y m d where c: "civil_from_days (Day t) = (y, m, d)"
    by (cases "civil_from_days (Day t)")
  have m: "1 \<le> m" "m \<le> 12" and r: "days_from_civil y m 1 + d - 1 = Day t"
    using civil_roundtrip [OF c] by simp_all
  have "(m - 1) div 12 = 0" "(m - 1) mod 12 + 1 = m"
    using m by (simp_all add: div_pos_pos_trivial)
  then show ?thesis
    using r by (simp add: MakeDay_def YearFromTime_def MonthFromTime_def DateFromTime_def c)
qed

text \<open>
  Stepping back \<open>i\<close> days with \<^verbatim>\<open>setDate\<close> and \<^verbatim>\<open>getDate\<close> subtracts \<open>i\<close> days from the local
  time, and it is the local result that is turned into UTC.
\<close>

lemma setDate_getDate:
  "setDate rt t (getDate rt t - i) = UTC rt (LocalTime rt t - i * msPerDay)"
proof -
  let ?lt = "LocalTime rt t"
  have "MakeDay (YearFromTime ?lt) (MonthFromTime ?lt) (DateFromTime ?lt - i) = Day ?lt - i"
    by (simp add: MakeDay_of_time)
  moreover have "MakeDate (Day ?lt - i) (TimeWithinDay ?lt) = ?lt - i * msPerDay"
    by (simp add: MakeDate_def Day_def TimeWithinDay_def algebra_simps)
  ultimately show ?thesis
    by (simp add: setDate_def getDate_def Let_def)
qed

lemma date_demo_data_local:
  "j < 91 \<Longrightarrow>
     date (demo_data rt ! j) =
       toISODate (UTC rt (LocalTime rt (now rt) - (90 - int j) * msPerDay))"
  by (simp add: date_demo_data setDate_getDate)

text \<open>
  Where the offset of local time from UTC never changes, the dates of the demo data are
  those of the 91 days that end with the UTC day of the clock.
\<close>

lemma date_demo_data_fixed_offset:
  assumes "\<forall>t isUTC. LocalTZA rt t isUTC = offset" and "j < 91"
  shows "date (demo_data rt ! j) = toISODate (now rt - (90 - int j) * msPerDay)"
  using assms by (simp add: date_demo_data_local UTC_def LocalTime_def)

text \<open>
  Claim C7, at a browser in New York on 10 November 2025, 19:30. The generator makes 91
  points, but \<^verbatim>\<open>setDate\<close> steps through the local days while \<^verbatim>\<open>toISOString\<close> prints the
  UTC day: the point for the local 1 November is dated \<^verbatim>\<open>2025-11-01\<close>, the next one, for
  the local 2 November, \<^verbatim>\<open>2025-11-03\<close>, and the last one \<^verbatim>\<open>2025-11-11\<close>.
\<close>

theorem demo_data_new_york_dates:
  "length (demo_data new_york_runtime) = 91 \<and>
   date (demo_data new_york_runtime ! 81) = ''2025-11-01'' \<and>
   date (demo_data new_york_runtime ! 82) = ''2025-11-03'' \<and>
   date (demo_data new_york_runtime ! 90) = ''2025-11-11''"
proof -
  have today: "getDate new_york_runtime (now new_york_runtime) = 10"
    by code_simp
  have d: "toISODate (setDate new_york_runtime (now new_york_runtime) (10 - 9)) = ''2025-11-01''"
    "toISODate (setDate new_york_runtime (now new_york_runtime) (10 - 8)) = ''2025-11-03''"
    "toISODate (setDate new_york_runtime (now new_york_runtime) (10 - 0)) = ''2025-11-11''"
    by code_simp+
  show ?thesis
    using d by (simp add: length_demo_data date_demo_data today)
qed

section \<open>Loading\<close>




end
